theory Spec2Isabelle
  imports
    Main
    "HOL-Library.Word"
    "HOL-Library.Char_ord"
    "HOL-Library.List_Lexorder"
    "HOL-Library.AList"
    "HOL-Library.Multiset"
begin

section \<open>Management views of the LDAP directory plug-in (pyams\_auth\_ldap.zmi)\<close>

text \<open>
  The module \<^verbatim>\<open>pyams_auth_ldap/zmi/__init__.py\<close> holds the add and edit forms of the
  plug-in, the directory search table and the display form of one directory entry.
  The values an entry carries, the dictionaries the views exchange and the calls they make
  to the plug-in and to the query helper are embedded below; the declarative registrations
  follow in a later section.
\<close>

subsection \<open>Python values and errors\<close>

text \<open>
  An attribute of a directory entry is a single value or a list of values; the directory
  client hands out text, raw bytes and numbers. \<open>VTuple\<close> is there because
  \<^verbatim>\<open>LDAPColumn.get_value\<close> tests for it, \<open>VNone\<close> because the display form tests
  \<^verbatim>\<open>photo is not None\<close>.
\<close>

type_synonym byte = "8 word"

datatype ldap_value =
    VNone
  | VStr string
  | VBytes "byte list"
  | VInt int
  | VList "ldap_value list"
  | VTuple "ldap_value list"

text \<open>
  The exceptions the modelled code can raise: an index out of range, an operand of the wrong
  type, and whatever the plug-in or the query helper raise (connection failures and the like),
  which the views let through to the framework.
\<close>

datatype py_error = IndexError | TypeError | ExternalError string

text \<open>A Python \<^verbatim>\<open>dict\<close> with its insertion order: an association list.\<close>

type_synonym ('k, 'v) dict = "('k \<times> 'v) list"

definition dict_get :: "('k, 'v) dict \<Rightarrow> 'k \<Rightarrow> 'v option" where
  "dict_get d k = map_of d k"

definition dict_set :: "('k, 'v) dict \<Rightarrow> 'k \<Rightarrow> 'v \<Rightarrow> ('k, 'v) dict" where
  "dict_set d k v = AList.update k v d"

type_synonym ldap_attributes = "(string, ldap_value) dict"

text \<open>A directory entry as the query helper returns it: \<^verbatim>\<open>(dn, attributes)\<close>.\<close>

type_synonym ldap_row = "string \<times> ldap_attributes"

subsection \<open>\<^verbatim>\<open>base64.encodebytes\<close>\<close>

definition b64_alphabet :: string where
  "b64_alphabet = ''ABCDEFGHIJKLMNOPQRSTUVWXYZabcdefghijklmnopqrstuvwxyz0123456789+/''"

text \<open>The table lookup of the encoder, with its six-bit mask.\<close>

definition b64_char :: "nat \<Rightarrow> char" where
  "b64_char i = b64_alphabet ! (i mod 64)"

definition newline :: char where
  "newline = CHR 0x0A"

text \<open>
  The plain encoding of RFC 4648: three bytes give four characters, a last group of one or
  two bytes is padded with \<open>=\<close>.
\<close>

fun b64encode :: "byte list \<Rightarrow> string" where
  "b64encode [] = []"
| "b64encode [a] =
     [b64_char (unat a div 4), b64_char ((unat a mod 4) * 16), CHR ''='', CHR ''='']"
| "b64encode [a, b] =
     [b64_char (unat a div 4), b64_char ((unat a mod 4) * 16 + unat b div 16),
      b64_char ((unat b mod 16) * 4), CHR ''='']"
| "b64encode (a # b # c # rest) =
     [b64_char (unat a div 4), b64_char ((unat a mod 4) * 16 + unat b div 16),
      b64_char ((unat b mod 16) * 4 + unat c div 64), b64_char (unat c mod 64)]
     @ b64encode rest"

text \<open>\<^verbatim>\<open>binascii.b2a_base64\<close>: one encoded line, closed by a newline.\<close>

definition b2a_base64 :: "byte list \<Rightarrow> string" where
  "b2a_base64 chunk = b64encode chunk @ [newline]"

definition MAXBINSIZE :: nat where
  "MAXBINSIZE = (76 div 4) * 3"

text \<open>
  \<^verbatim>\<open>base64.encodebytes(s)\<close> cuts \<open>s\<close> into pieces of \<open>MAXBINSIZE\<close> bytes and joins their
  lines, so the output has a newline after every 76 characters and at its end; an empty
  input gives an empty output. The output is ASCII, and the \<^verbatim>\<open>.decode()\<close> the view applies
  to it gives the same characters as text: the function returns them as a \<open>string\<close>.
\<close>

function encodebytes :: "byte list \<Rightarrow> string" where
  "encodebytes s =
     (if s = [] then [] else b2a_base64 (take MAXBINSIZE s) @ encodebytes (drop MAXBINSIZE s))"
  by pat_completeness auto
termination
  by (relation "measure length") (auto simp: MAXBINSIZE_def)

declare encodebytes.simps [simp del]

text \<open>\<^verbatim>\<open>'<img src="data:image/jpeg;base64,{0}" />'.format(payload)\<close>\<close>

definition img_markup :: "string \<Rightarrow> string" where
  "img_markup payload =
     ''<img src='' @ [CHR 0x22] @ ''data:image/jpeg;base64,'' @ payload @ [CHR 0x22] @ '' />''"

subsection \<open>The plug-in, the request and the query helper\<close>

text \<open>
  \<^verbatim>\<open>ILDAPPlugin\<close> is declared outside this module. The views use its
  \<^verbatim>\<open>get_connection()\<close>, its \<^verbatim>\<open>uid_attribute\<close> and its
  \<^verbatim>\<open>get_search_results(criteria)\<close>; the two methods can raise. The type \<open>'c\<close> is the
  connection.
\<close>

type_synonym criteria = "(string, string option) dict"

record 'c ldap_plugin =
  get_connection :: "py_error + 'c"
  uid_attribute :: string
  get_search_results :: "criteria \<Rightarrow> py_error + ldap_row list"

text \<open>\<^verbatim>\<open>request.params.get(key)\<close> is \<open>params r key\<close>, \<open>None\<close> for a missing parameter.\<close>

record http_request =
  params :: "string \<rightharpoonup> string"

text \<open>The constants \<^verbatim>\<open>BASE\<close> and \<^verbatim>\<open>ALL_ATTRIBUTES\<close> of the directory client.\<close>

datatype search_scope = BASE | LEVEL | SUBTREE

datatype attribute_selection = ALL_ATTRIBUTES | NO_ATTRIBUTES | Attribute_names "string list"

text \<open>
  The four arguments the display form gives to
  \<^verbatim>\<open>LDAPQuery(base_dn, filter_tmpl, scope, attributes)\<close>, as the form writes them. The
  base is \<open>None\<close> when the request has no \<^verbatim>\<open>dn\<close> parameter.
\<close>

record ldap_query =
  base_dn :: "string option"
  filter_tmpl :: string
  scope :: search_scope
  attributes :: attribute_selection

text \<open>
  The class \<^verbatim>\<open>LDAPQuery\<close> and its \<^verbatim>\<open>execute\<close> are in \<^verbatim>\<open>pyams_auth_ldap.query\<close>, which
  is not part of this module. What they do with the arguments is not modelled: they enter
  as a parameter \<open>directory\<close>, which gives, for a connection and the arguments of a query,
  the outcome of \<^verbatim>\<open>LDAPQuery(...).execute(conn)\<close>: the rows answered, or the exception
  raised by the constructor or by \<^verbatim>\<open>execute\<close> (on a base they cannot use, on a failing
  search). Whether and what the helper sends to the directory server is its own affair.
\<close>

type_synonym 'c directory = "'c \<Rightarrow> ldap_query \<Rightarrow> py_error + ldap_row list"

text \<open>
  \<open>helper_calls\<close> is the list of what the views of this module have handed to the query
  helper, in order: the connection and the arguments of each evaluation of
  \<^verbatim>\<open>LDAPQuery(...).execute(conn)\<close> they have made, whatever came of it.
\<close>

record 'c world =
  helper_calls :: "('c \<times> ldap_query) list"

text \<open>
  The call site of the display form, \<^verbatim>\<open>query = LDAPQuery(...)\<close> followed by
  \<^verbatim>\<open>result = query.execute(conn)\<close>: the outcome is the helper's, and the call is noted.
\<close>

definition call_query_helper ::
  "'c directory \<Rightarrow> ldap_query \<Rightarrow> 'c \<Rightarrow> 'c world \<Rightarrow> (py_error + ldap_row list) \<times> 'c world" where
  "call_query_helper directory query conn w =
     (directory conn query, w\<lparr>helper_calls := helper_calls w @ [(conn, query)]\<rparr>)"

subsection \<open>The entry display form\<close>

text \<open>
  What \<^verbatim>\<open>ldap_entry\<close> returns is a dictionary that is empty or has the distinguished name
  under \<^verbatim>\<open>'dn'\<close> and the sorted list of \<^verbatim>\<open>(name, value)\<close> pairs under
  \<^verbatim>\<open>'attributes'\<close>.
\<close>

datatype entry_value = Dn string | Items "(string \<times> ldap_value) list"

type_synonym ldap_entry_dict = "(string, entry_value) dict"

text \<open>
  The body of each \<^verbatim>\<open>if photo is not None:\<close> block: a list is replaced by its first
  element (\<^verbatim>\<open>photo[0]\<close> raises \<open>IndexError\<close> on an empty list), the encoder takes bytes
  only (\<open>TypeError\<close> otherwise), and the new value of the attribute is a list of one
  string.
\<close>

definition photo_markup :: "ldap_value \<Rightarrow> py_error + ldap_value" where
  "photo_markup photo =
     (case (case photo of
              VList [] \<Rightarrow> Inl IndexError
            | VList (first # _) \<Rightarrow> Inr first
            | _ \<Rightarrow> Inr photo) of
        Inl e \<Rightarrow> Inl e
      | Inr (VBytes raw) \<Rightarrow> Inr (VList [VStr (img_markup (encodebytes raw))])
      | Inr _ \<Rightarrow> Inl TypeError)"

text \<open>
  \<^verbatim>\<open>photo = attributes.get(name)\<close>, then the block above when \<open>photo\<close> is not
  \<^verbatim>\<open>None\<close>, storing the markup back under the same name. The source writes this out
  twice, for \<^verbatim>\<open>'jpegPhoto'\<close> and for \<^verbatim>\<open>'thumbnailPhoto'\<close>.
\<close>

definition encode_photo :: "string \<Rightarrow> ldap_attributes \<Rightarrow> py_error + ldap_attributes" where
  "encode_photo attr attrs =
     (case dict_get attrs attr of
        None \<Rightarrow> Inr attrs
      | Some VNone \<Rightarrow> Inr attrs
      | Some photo \<Rightarrow>
          (case photo_markup photo of
             Inl e \<Rightarrow> Inl e
           | Inr markup \<Rightarrow> Inr (dict_set attrs attr markup)))"

text \<open>\<^verbatim>\<open>sorted(attributes.items(), key=lambda x: x[0])\<close>: a stable sort on the names.\<close>

definition sorted_items :: "ldap_attributes \<Rightarrow> (string \<times> ldap_value) list" where
  "sorted_items attrs = sort_key fst attrs"

text \<open>The part of \<^verbatim>\<open>ldap_entry\<close> after the query has answered.\<close>

definition entry_of_result :: "ldap_row list \<Rightarrow> py_error + ldap_entry_dict" where
  "entry_of_result result =
     (if result = [] \<or> length result > 1 then Inr []
      else
        (let (dn, attrs) = hd result in
         case encode_photo ''jpegPhoto'' attrs of
           Inl e \<Rightarrow> Inl e
         | Inr attrs1 \<Rightarrow>
             (case encode_photo ''thumbnailPhoto'' attrs1 of
                Inl e \<Rightarrow> Inl e
              | Inr attrs2 \<Rightarrow>
                  Inr [(''dn'', Dn dn), (''attributes'', Items (sorted_items attrs2))])))"

text \<open>\<^verbatim>\<open>LDAPEntryPropertiesDisplayForm.ldap_entry\<close>, the function under \<^verbatim>\<open>@reify\<close>.\<close>

definition ldap_entry ::
  "'c ldap_plugin \<Rightarrow> http_request \<Rightarrow> 'c directory \<Rightarrow> 'c world
     \<Rightarrow> (py_error + ldap_entry_dict) \<times> 'c world" where
  "ldap_entry plugin req directory w =
     (case get_connection plugin of
        Inl e \<Rightarrow> (Inl e, w)
      | Inr conn \<Rightarrow>
          (let dn = params req ''dn'';
               query = \<lparr>base_dn = dn, filter_tmpl = ''(objectclass=*)'', scope = BASE,
                        attributes = ALL_ATTRIBUTES\<rparr>;
               (result, w') = call_query_helper directory query conn w
           in case result of
                Inl e \<Rightarrow> (Inl e, w')
              | Inr rows \<Rightarrow> (entry_of_result rows, w')))"

text \<open>
  The form instance: its context (the plug-in), its request, and the slot in which
  \<^verbatim>\<open>@reify\<close> keeps the value of \<^verbatim>\<open>ldap_entry\<close> once it has been computed.
\<close>

record 'c display_form =
  form_context :: "'c ldap_plugin"
  form_request :: http_request
  ldap_entry_slot :: "ldap_entry_dict option"

text \<open>
  Reading \<^verbatim>\<open>form.ldap_entry\<close>: the stored value when there is one; otherwise the function
  runs, and its value is stored unless it raised.
\<close>

definition read_ldap_entry ::
  "'c directory \<Rightarrow> 'c display_form \<Rightarrow> 'c world
     \<Rightarrow> (py_error + ldap_entry_dict) \<times> 'c display_form \<times> 'c world" where
  "read_ldap_entry directory form w =
     (case ldap_entry_slot form of
        Some entry \<Rightarrow> (Inr entry, form, w)
      | None \<Rightarrow>
          (case ldap_entry (form_context form) (form_request form) directory w of
             (Inl e, w') \<Rightarrow> (Inl e, form, w')
           | (Inr entry, w') \<Rightarrow> (Inr entry, form\<lparr>ldap_entry_slot := Some entry\<rparr>, w')))"

text \<open>
  A row of the properties table. Iterating over the value found under \<^verbatim>\<open>'attributes'\<close>
  gives its pairs; a string, which the form never stores there, would give its characters.
\<close>

datatype table_row = Attribute_row "string \<times> ldap_value" | Char_row char

fun iterate :: "entry_value \<Rightarrow> table_row list" where
  "iterate (Items pairs) = map Attribute_row pairs"
| "iterate (Dn s) = map Char_row s"

text \<open>
  \<^verbatim>\<open>LDAPEntryPropertiesTableValues.values\<close>:
  \<^verbatim>\<open>yield from self.view.view.ldap_entry.get('attributes', ())\<close>.
\<close>

definition LDAPEntryPropertiesTableValues_values ::
  "'c directory \<Rightarrow> 'c display_form \<Rightarrow> 'c world
     \<Rightarrow> (py_error + table_row list) \<times> 'c display_form \<times> 'c world" where
  "LDAPEntryPropertiesTableValues_values directory form w =
     (case read_ldap_entry directory form w of
        (Inl e, form', w') \<Rightarrow> (Inl e, form', w')
      | (Inr entry, form', w') \<Rightarrow>
          (Inr (case dict_get entry ''attributes'' of
                  None \<Rightarrow> []
                | Some v \<Rightarrow> iterate v), form', w'))"

subsection \<open>The directory search table\<close>

text \<open>
  \<^verbatim>\<open>LDAPPluginSearchResultsValues.values\<close>: the rows are what the plug-in's
  \<^verbatim>\<open>get_search_results\<close> gives for the criteria
  \<^verbatim>\<open>{'query': request.params.get('form.widgets.query')}\<close>.
\<close>

definition LDAPPluginSearchResultsValues_values ::
  "'c ldap_plugin \<Rightarrow> http_request \<Rightarrow> py_error + ldap_row list" where
  "LDAPPluginSearchResultsValues_values plugin req =
     get_search_results plugin [(''query'', params req ''form.widgets.query'')]"

text \<open>\<^verbatim>\<open>sep.join(items)\<close> on strings.\<close>

fun join :: "string \<Rightarrow> string list \<Rightarrow> string" where
  "join sep [] = []"
| "join sep [s] = s"
| "join sep (s # t # rest) = s @ sep @ join sep (t # rest)"

text \<open>\<^verbatim>\<open>str.join\<close> raises \<open>TypeError\<close> on an item that is not a string.\<close>

fun str_items :: "ldap_value list \<Rightarrow> py_error + string list" where
  "str_items [] = Inr []"
| "str_items (VStr s # rest) =
     (case str_items rest of Inl e \<Rightarrow> Inl e | Inr ss \<Rightarrow> Inr (s # ss))"
| "str_items (_ # rest) = Inl TypeError"

definition join_values :: "string \<Rightarrow> ldap_value list \<Rightarrow> py_error + ldap_value" where
  "join_values sep items =
     (case str_items items of Inl e \<Rightarrow> Inl e | Inr ss \<Rightarrow> Inr (VStr (join sep ss)))"

text \<open>
  \<^verbatim>\<open>LDAPColumn.get_value(obj)\<close> for a column whose \<^verbatim>\<open>attr_name\<close> is \<open>attr\<close>:
  \<^verbatim>\<open>obj[1].get(attr, ())\<close>, joined when it is a list or a tuple.
\<close>

definition LDAPColumn_get_value :: "string \<Rightarrow> ldap_row \<Rightarrow> py_error + ldap_value" where
  "LDAPColumn_get_value attr obj =
     (let v = (case dict_get (snd obj) attr of None \<Rightarrow> VTuple [] | Some x \<Rightarrow> x)
      in case v of
           VList items \<Rightarrow> join_values ''<br /> '' items
         | VTuple items \<Rightarrow> join_values ''<br /> '' items
         | _ \<Rightarrow> Inr v)"

fun is_list_or_tuple :: "ldap_value \<Rightarrow> bool" where
  "is_list_or_tuple (VList _) = True"
| "is_list_or_tuple (VTuple _) = True"
| "is_list_or_tuple _ = False"

subsection \<open>Registrations\<close>

text \<open>
  The decorators \<^verbatim>\<open>adapter_config\<close> of the module register classes and functions in the
  component registry under a name, for a triple of required specifications (context,
  request layer, view) and a provided interface. The registry is the list of these
  registrations, in the order of the source.
\<close>

datatype interface =
    Interface | ISecurityManager | ILDAPPlugin | IAdminLayer
  | ILDAPPluginConnectionSubform | ILDAPPluginUsersSchemaSubform
  | ILDAPPluginGroupsSchemaSubform | ILDAPPluginSearchSettingsSubform
  | IInnerTabForm | IFormFields | IValues | IColumn | IFormTitle

datatype zmi_name =
    LDAPPluginAddForm
  | LDAPPluginConnectionAddForm | LDAPPluginUsersSchemaAddForm
  | LDAPPluginGroupsSchemaAddForm | LDAPPluginSearchSettingsAddForm
  | LDAPPluginPropertiesEditForm
  | LDAPPluginConnectionEditForm | LDAPPluginUsersSchemaEditForm
  | LDAPPluginGroupsSchemaEditForm | LDAPPluginSearchSettingsEditForm
  | ldap_plugin_connection_fields | ldap_plugin_users_schema_fields
  | ldap_plugin_groups_schema_fields | ldap_plugin_search_settings_fields
  | LDAPPluginSearchResultsTable | LDAPPluginSearchResultsValues
  | LDAPPluginSearchUIDColumn | LDAPPluginSearchCNColumn | LDAPPluginSearchMailColumn
  | LDAPEntryPropertiesDisplayForm | ldap_entry_display_form_title
  | LDAPEntryPropertiesTable | LDAPEntryPropertiesTableValues
  | LDAPEntryAttributeColumn | LDAPEntryValuesColumn

text \<open>An item of \<^verbatim>\<open>required=(...)\<close> is an interface or a class of the module.\<close>

datatype spec = Provides interface | Class zmi_name

record adapter =
  adapter_name :: string
  required :: "spec list"
  provided :: interface
  factory :: zmi_name

definition adapter_config :: "string \<Rightarrow> spec list \<Rightarrow> interface \<Rightarrow> zmi_name \<Rightarrow> adapter" where
  "adapter_config n req prov f =
     \<lparr>adapter_name = n, required = req, provided = prov, factory = f\<rparr>"

definition adapters :: "adapter list" where
  "adapters =
    [adapter_config ''connection''
       [Provides ISecurityManager, Provides IAdminLayer, Class LDAPPluginAddForm]
       IInnerTabForm LDAPPluginConnectionAddForm,
     adapter_config ''users-schema''
       [Provides ISecurityManager, Provides IAdminLayer, Class LDAPPluginAddForm]
       IInnerTabForm LDAPPluginUsersSchemaAddForm,
     adapter_config ''groups-schema''
       [Provides ISecurityManager, Provides IAdminLayer, Class LDAPPluginAddForm]
       IInnerTabForm LDAPPluginGroupsSchemaAddForm,
     adapter_config ''search-settings''
       [Provides ISecurityManager, Provides IAdminLayer, Class LDAPPluginAddForm]
       IInnerTabForm LDAPPluginSearchSettingsAddForm,
     adapter_config ''connection''
       [Provides ILDAPPlugin, Provides IAdminLayer, Class LDAPPluginPropertiesEditForm]
       IInnerTabForm LDAPPluginConnectionEditForm,
     adapter_config ''users-schema''
       [Provides ILDAPPlugin, Provides IAdminLayer, Class LDAPPluginPropertiesEditForm]
       IInnerTabForm LDAPPluginUsersSchemaEditForm,
     adapter_config ''groups-schema''
       [Provides ILDAPPlugin, Provides IAdminLayer, Class LDAPPluginPropertiesEditForm]
       IInnerTabForm LDAPPluginGroupsSchemaEditForm,
     adapter_config ''search-settings''
       [Provides ILDAPPlugin, Provides IAdminLayer, Class LDAPPluginPropertiesEditForm]
       IInnerTabForm LDAPPluginSearchSettingsEditForm,
     adapter_config []
       [Provides Interface, Provides IAdminLayer, Provides ILDAPPluginConnectionSubform]
       IFormFields ldap_plugin_connection_fields,
     adapter_config []
       [Provides Interface, Provides IAdminLayer, Provides ILDAPPluginUsersSchemaSubform]
       IFormFields ldap_plugin_users_schema_fields,
     adapter_config []
       [Provides Interface, Provides IAdminLayer, Provides ILDAPPluginGroupsSchemaSubform]
       IFormFields ldap_plugin_groups_schema_fields,
     adapter_config []
       [Provides Interface, Provides IAdminLayer, Provides ILDAPPluginSearchSettingsSubform]
       IFormFields ldap_plugin_search_settings_fields,
     adapter_config []
       [Provides ILDAPPlugin, Provides IAdminLayer, Class LDAPPluginSearchResultsTable]
       IValues LDAPPluginSearchResultsValues,
     adapter_config ''uid''
       [Provides ILDAPPlugin, Provides IAdminLayer, Class LDAPPluginSearchResultsTable]
       IColumn LDAPPluginSearchUIDColumn,
     adapter_config ''cn''
       [Provides ILDAPPlugin, Provides IAdminLayer, Class LDAPPluginSearchResultsTable]
       IColumn LDAPPluginSearchCNColumn,
     adapter_config ''mail''
       [Provides ILDAPPlugin, Provides IAdminLayer, Class LDAPPluginSearchResultsTable]
       IColumn LDAPPluginSearchMailColumn,
     adapter_config []
       [Provides ILDAPPlugin, Provides IAdminLayer, Class LDAPEntryPropertiesDisplayForm]
       IFormTitle ldap_entry_display_form_title,
     adapter_config []
       [Provides ILDAPPlugin, Provides IAdminLayer, Class LDAPEntryPropertiesTable]
       IValues LDAPEntryPropertiesTableValues,
     adapter_config ''attribute''
       [Provides ILDAPPlugin, Provides IAdminLayer, Class LDAPEntryPropertiesTable]
       IColumn LDAPEntryAttributeColumn,
     adapter_config ''values''
       [Provides ILDAPPlugin, Provides IAdminLayer, Class LDAPEntryPropertiesTable]
       IColumn LDAPEntryValuesColumn]"

text \<open>The interfaces a class declares with \<^verbatim>\<open>@implementer\<close>.\<close>

fun implementer :: "zmi_name \<Rightarrow> interface list" where
  "implementer LDAPPluginConnectionAddForm = [ILDAPPluginConnectionSubform]"
| "implementer LDAPPluginConnectionEditForm = [ILDAPPluginConnectionSubform]"
| "implementer _ = []"

text \<open>
  The class attribute \<^verbatim>\<open>fields\<close> of the sub-forms that set one:
  \<^verbatim>\<open>Fields(ILDAPPlugin).select(...)\<close>, kept as the selected names in their order.
\<close>

fun class_fields :: "zmi_name \<Rightarrow> string list option" where
  "class_fields LDAPPluginUsersSchemaAddForm =
     Some [''base_dn'', ''search_scope'', ''login_attribute'', ''login_query'',
           ''uid_attribute'', ''uid_query'', ''title_format'', ''mail_attribute'',
           ''user_extra_attributes'']"
| "class_fields LDAPPluginGroupsSchemaAddForm =
     Some [''groups_base_dn'', ''groups_search_scope'', ''group_prefix'',
           ''group_uid_attribute'', ''group_title_format'', ''group_members_query_mode'',
           ''groups_query'', ''group_members_attribute'', ''user_groups_attribute'',
           ''group_mail_mode'', ''group_replace_expression'', ''group_mail_attribute'',
           ''group_extra_attributes'']"
| "class_fields LDAPPluginSearchSettingsAddForm =
     Some [''users_select_query'', ''users_search_query'', ''groups_select_query'',
           ''groups_search_query'']"
| "class_fields LDAPPluginUsersSchemaEditForm =
     Some [''base_dn'', ''search_scope'', ''login_attribute'', ''login_query'',
           ''uid_attribute'', ''uid_query'', ''title_format'', ''mail_attribute'',
           ''user_extra_attributes'']"
| "class_fields LDAPPluginGroupsSchemaEditForm =
     Some [''groups_base_dn'', ''groups_search_scope'', ''group_prefix'',
           ''group_uid_attribute'', ''group_title_format'', ''group_members_query_mode'',
           ''groups_query'', ''group_members_attribute'', ''user_groups_attribute'',
           ''group_mail_mode'', ''group_replace_expression'', ''group_mail_attribute'',
           ''group_extra_attributes'']"
| "class_fields LDAPPluginSearchSettingsEditForm =
     Some [''users_select_query'', ''users_search_query'', ''groups_select_query'',
           ''groups_search_query'']"
| "class_fields _ = None"

text \<open>What the four \<^verbatim>\<open>IFormFields\<close> adapter functions return.\<close>

fun call_fields_adapter :: "zmi_name \<Rightarrow> string list option" where
  "call_fields_adapter ldap_plugin_connection_fields =
     Some [''server_uri'', ''start_tls'', ''bind_dn'', ''bind_password'', ''bind_mode'']"
| "call_fields_adapter ldap_plugin_users_schema_fields =
     Some [''base_dn'', ''search_scope'', ''login_attribute'', ''login_query'',
           ''uid_attribute'', ''uid_query'', ''title_format'', ''mail_attribute'',
           ''user_extra_attributes'']"
| "call_fields_adapter ldap_plugin_groups_schema_fields =
     Some [''groups_base_dn'', ''groups_search_scope'', ''group_prefix'',
           ''group_uid_attribute'', ''group_title_format'', ''group_members_query_mode'',
           ''groups_query'', ''group_members_attribute'', ''user_groups_attribute'',
           ''group_mail_mode'', ''group_replace_expression'', ''group_mail_attribute'',
           ''group_extra_attributes'']"
| "call_fields_adapter ldap_plugin_search_settings_fields =
     Some [''users_select_query'', ''users_search_query'', ''groups_select_query'',
           ''groups_search_query'']"
| "call_fields_adapter _ = None"

text \<open>The \<^verbatim>\<open>attr_name\<close> of the three columns of the search table.\<close>

fun attr_name :: "zmi_name \<Rightarrow> 'c ldap_plugin \<Rightarrow> string option" where
  "attr_name LDAPPluginSearchUIDColumn plugin = Some (uid_attribute plugin)"
| "attr_name LDAPPluginSearchCNColumn plugin = Some ''cn''"
| "attr_name LDAPPluginSearchMailColumn plugin = Some ''mail''"
| "attr_name _ plugin = None"

text \<open>
  The lookup itself belongs to the component registry of the host framework, not to this
  module. It is kept to what the registrations above rely on: an object is given by what it
  provides (its class and the interfaces of \<^verbatim>\<open>@implementer\<close>), a required
  \<^verbatim>\<open>Interface\<close> accepts every object, any other required item must be among what the
  object provides, and the adapters found keep the order of their registration.
\<close>

definition instance_of :: "zmi_name \<Rightarrow> spec list" where
  "instance_of cls = Class cls # map Provides (implementer cls)"

fun accepts :: "spec \<Rightarrow> spec list \<Rightarrow> bool" where
  "accepts (Provides Interface) obj = True"
| "accepts s obj = (s \<in> set obj)"

definition get_adapters :: "spec list list \<Rightarrow> interface \<Rightarrow> adapter list" where
  "get_adapters objs iface =
     filter (\<lambda>a. provided a = iface \<and> list_all2 accepts (required a) objs) adapters"

text \<open>
  The inner tab forms of a form on a context are the adapters found for (context, request,
  form) and \<^verbatim>\<open>IInnerTabForm\<close>. The field selection of such a sub-form is its class
  attribute \<^verbatim>\<open>fields\<close> where the class sets one; a class that sets none (the two
  connection sub-forms) gets its fields from the form framework, which asks the registry
  for the \<^verbatim>\<open>IFormFields\<close> adapter of (context, request, sub-form).
\<close>

definition inner_tab_forms :: "interface \<Rightarrow> zmi_name \<Rightarrow> adapter list" where
  "inner_tab_forms ctx form =
     get_adapters [[Provides ctx], [Provides IAdminLayer], instance_of form] IInnerTabForm"

definition inner_tab_form :: "interface \<Rightarrow> zmi_name \<Rightarrow> string \<Rightarrow> zmi_name option" where
  "inner_tab_form ctx form tab =
     map_option factory (find (\<lambda>a. adapter_name a = tab) (inner_tab_forms ctx form))"

definition fields_adapters :: "interface \<Rightarrow> zmi_name \<Rightarrow> zmi_name list" where
  "fields_adapters ctx subform =
     map factory
       (get_adapters [[Provides ctx], [Provides IAdminLayer], instance_of subform] IFormFields)"

definition form_fields :: "interface \<Rightarrow> zmi_name \<Rightarrow> string list option" where
  "form_fields ctx subform =
     (case class_fields subform of
        Some fs \<Rightarrow> Some fs
      | None \<Rightarrow>
          (case fields_adapters ctx subform of
             [] \<Rightarrow> None
           | f # _ \<Rightarrow> call_fields_adapter f))"

definition table_columns :: "zmi_name \<Rightarrow> adapter list" where
  "table_columns table =
     get_adapters [[Provides ILDAPPlugin], [Provides IAdminLayer], instance_of table] IColumn"

subsection \<open>Binary photo attributes\<close>

text \<open>
  The two attributes the display form turns into images. \<open>raw_photo\<close> gives the bytes of a
  photo value that is binary: the value itself, or the first element of a list of values.
  \<open>photos_binary\<close> says that each of the two attributes, where the entry has one that is
  not \<^verbatim>\<open>None\<close>, is binary in this sense, as the directory schema has them.
\<close>

definition photo_attributes :: "string list" where
  "photo_attributes = [''jpegPhoto'', ''thumbnailPhoto'']"

fun raw_photo :: "ldap_value \<Rightarrow> byte list option" where
  "raw_photo (VBytes raw) = Some raw"
| "raw_photo (VList (VBytes raw # _)) = Some raw"
| "raw_photo _ = None"

definition photo_binary :: "ldap_attributes \<Rightarrow> string \<Rightarrow> bool" where
  "photo_binary attrs attr =
     (case dict_get attrs attr of
        None \<Rightarrow> True
      | Some VNone \<Rightarrow> True
      | Some photo \<Rightarrow> raw_photo photo \<noteq> None)"

definition photos_binary :: "ldap_attributes \<Rightarrow> bool" where
  "photos_binary attrs = list_all (photo_binary attrs) photo_attributes"

text \<open>The value stored for a photo of bytes \<open>raw\<close>, and an entry with it stored.\<close>

definition photo_value :: "byte list \<Rightarrow> ldap_value" where
  "photo_value raw = VList [VStr (img_markup (encodebytes raw))]"

definition with_markup :: "string \<Rightarrow> ldap_attributes \<Rightarrow> ldap_attributes" where
  "with_markup attr attrs =
     (case dict_get attrs attr of
        None \<Rightarrow> attrs
      | Some photo \<Rightarrow>
          (case raw_photo photo of
             None \<Rightarrow> attrs
           | Some raw \<Rightarrow> dict_set attrs attr (photo_value raw)))"

text \<open>The arguments the display form hands to the query helper for a request.\<close>

definition entry_query :: "http_request \<Rightarrow> ldap_query" where
  "entry_query req =
     \<lparr>base_dn = params req ''dn'', filter_tmpl = ''(objectclass=*)'', scope = BASE,
      attributes = ALL_ATTRIBUTES\<rparr>"

subsection \<open>Sample data\<close>

definition sample_attributes :: ldap_attributes where
  "sample_attributes =
     [(''uid'', VStr ''jdoe''),
      (''jpegPhoto'', VList [VBytes [0xFF, 0xD8, 0xFF, 0xE0], VBytes [0x00]]),
      (''cn'', VList [VStr ''John Doe'', VStr ''J. Doe'']),
      (''thumbnailPhoto'', VBytes [0x4D, 0x61, 0x6E]),
      (''Mail'', VStr ''jdoe@example.org'')]"

definition sample_row :: ldap_row where
  "sample_row = (''uid=jdoe,ou=people,dc=example,dc=org'', sample_attributes)"

definition sample_directory :: "nat directory" where
  "sample_directory conn query =
     (if base_dn query = Some ''UID=JDOE,OU=People,DC=example,DC=org''
      then Inr [sample_row] else Inr [])"

definition sample_plugin :: "nat ldap_plugin" where
  "sample_plugin =
     \<lparr>get_connection = Inr 7, uid_attribute = ''uid'',
      get_search_results = (\<lambda>c. Inr [sample_row])\<rparr>"

definition sample_request :: http_request where
  "sample_request = \<lparr>params = [''dn'' \<mapsto> ''UID=JDOE,OU=People,DC=example,DC=org'']\<rparr>"

definition other_request :: http_request where
  "other_request = \<lparr>params = [''dn'' \<mapsto> ''uid=nobody,ou=people,dc=example,dc=org'']\<rparr>"

definition sample_world :: "nat world" where
  "sample_world = \<lparr>helper_calls = []\<rparr>"

text \<open>A plug-in that cannot reach its server, and a request without a \<^verbatim>\<open>dn\<close>.\<close>

definition offline_plugin :: "nat ldap_plugin" where
  "offline_plugin =
     \<lparr>get_connection = Inl (ExternalError ''server unreachable''), uid_attribute = ''uid'',
      get_search_results = (\<lambda>c. Inl (ExternalError ''server unreachable''))\<rparr>"

definition request_without_dn :: http_request where
  "request_without_dn = \<lparr>params = Map.empty\<rparr>"

definition sample_form :: "http_request \<Rightarrow> nat display_form" where
  "sample_form req =
     \<lparr>form_context = sample_plugin, form_request = req, ldap_entry_slot = None\<rparr>"

section \<open>Properties\<close>

subsection \<open>The encoder\<close>

lemma b64_char_in_alphabet: "b64_char i \<in> set b64_alphabet"
proof -
  have "length b64_alphabet = 64" by (simp add: b64_alphabet_def)
  then have "i mod 64 < length b64_alphabet" by simp
  then show ?thesis unfolding b64_char_def by (rule nth_mem)
qed

lemma newline_not_in_alphabet: "newline \<notin> set b64_alphabet"
  by (simp add: b64_alphabet_def newline_def)

lemma b64_char_not_newline: "b64_char i \<noteq> newline"
  using b64_char_in_alphabet [of i] newline_not_in_alphabet by metis

lemma pad_not_newline: "CHR ''='' \<noteq> newline"
  by (simp add: newline_def)

lemma filter_b64encode: "filter (\<lambda>c. c \<noteq> newline) (b64encode xs) = b64encode xs"
  by (induction xs rule: b64encode.induct)
    (simp_all add: b64_char_not_newline pad_not_newline)

lemma b64encode_append:
  "length xs mod 3 = 0 \<Longrightarrow> b64encode (xs @ ys) = b64encode xs @ b64encode ys"
  by (induction xs rule: b64encode.induct) simp_all

lemma b64encode_take_drop:
  "b64encode (take MAXBINSIZE s) @ b64encode (drop MAXBINSIZE s) = b64encode s"
proof (cases "MAXBINSIZE \<le> length s")
  case True
  then have "length (take MAXBINSIZE s) mod 3 = 0"
    by (simp add: MAXBINSIZE_def)
  then have "b64encode (take MAXBINSIZE s @ drop MAXBINSIZE s)
      = b64encode (take MAXBINSIZE s) @ b64encode (drop MAXBINSIZE s)"
    by (rule b64encode_append)
  then show ?thesis by simp
next
  case False
  then show ?thesis by simp
qed

text \<open>
  Without its line breaks, the output of \<open>encodebytes\<close> is the plain base64 encoding of
  the whole input.
\<close>

lemma encodebytes_without_newlines:
  "filter (\<lambda>c. c \<noteq> newline) (encodebytes s) = b64encode s"
proof (induction s rule: encodebytes.induct)
  case (1 s)
  show ?case
  proof (cases "s = []")
    case True
    then show ?thesis by (simp add: encodebytes.simps)
  next
    case False
    have "filter (\<lambda>c. c \<noteq> newline) (encodebytes s)
        = b64encode (take MAXBINSIZE s) @ b64encode (drop MAXBINSIZE s)"
      using False "1.IH" [OF False]
      by (subst encodebytes.simps) (simp add: b2a_base64_def filter_b64encode)
    then show ?thesis by (simp add: b64encode_take_drop)
  qed
qed

subsection \<open>Dictionaries and sorting\<close>

lemma map_of_filter_key: "map_of (filter (\<lambda>p. fst p = k) xs) k = map_of xs k"
  by (induction xs) auto

lemma map_of_sort_key: "map_of (sort_key fst xs) k = map_of xs k"
proof -
  have "filter (\<lambda>p. fst p = k) (sort_key fst xs) = filter (\<lambda>p. fst p = k) xs"
    by (rule sort_key_stable)
  then have "map_of (filter (\<lambda>p. fst p = k) (sort_key fst xs)) k
      = map_of (filter (\<lambda>p. fst p = k) xs) k"
    by simp
  then show ?thesis by (simp only: map_of_filter_key)
qed

lemma dict_get_sorted_items: "dict_get (sorted_items attrs) k = dict_get attrs k"
  by (simp add: dict_get_def sorted_items_def map_of_sort_key)

lemma dict_get_dict_set:
  "dict_get (dict_set d k v) k' = (if k' = k then Some v else dict_get d k')"
  by (simp add: dict_get_def dict_set_def update_conv')



subsection \<open>Photo values\<close>

lemma photo_markup_raw:
  "raw_photo photo = Some raw \<Longrightarrow> photo_markup photo = Inr (photo_value raw)"
  by (induction photo rule: raw_photo.induct) (simp_all add: photo_markup_def photo_value_def)

lemma photo_markup_not_binary:
  "raw_photo photo = None \<Longrightarrow> \<exists>e. photo_markup photo = Inl e"
  by (induction photo rule: raw_photo.induct) (simp_all add: photo_markup_def)

lemma encode_photo_binary:
  "photo_binary attrs attr \<Longrightarrow> encode_photo attr attrs = Inr (with_markup attr attrs)"
  unfolding photo_binary_def encode_photo_def with_markup_def
  by (auto simp: photo_markup_raw split: option.splits ldap_value.splits list.splits)

lemma encode_photo_not_binary:
  assumes "\<not> photo_binary attrs attr"
  shows "\<exists>e. encode_photo attr attrs = Inl e"
proof -
  from assms obtain photo where get: "dict_get attrs attr = Some photo"
    and some: "photo \<noteq> VNone" and raw: "raw_photo photo = None"
    by (auto simp: photo_binary_def split: option.splits ldap_value.splits)
  from raw obtain e where "photo_markup photo = Inl e"
    using photo_markup_not_binary by blast
  with get some have "encode_photo attr attrs = Inl e"
    by (cases photo) (simp_all add: encode_photo_def)
  then show ?thesis ..
qed

lemma dict_get_with_markup_other:
  "attr' \<noteq> attr \<Longrightarrow> dict_get (with_markup attr attrs) attr' = dict_get attrs attr'"
  by (simp add: with_markup_def dict_get_dict_set split: option.splits)

lemma dict_get_with_markup_same:
  "dict_get attrs attr = Some photo \<Longrightarrow> raw_photo photo = Some raw
     \<Longrightarrow> dict_get (with_markup attr attrs) attr = Some (photo_value raw)"
  by (simp add: with_markup_def dict_get_dict_set)

lemma photo_binary_with_markup:
  "attr' \<noteq> attr \<Longrightarrow> photo_binary (with_markup attr attrs) attr' = photo_binary attrs attr'"
  by (simp add: photo_binary_def dict_get_with_markup_other)



subsection \<open>The entry lookup\<close>

lemma entry_of_result_ambiguous:
  "result = [] \<or> 1 < length result \<Longrightarrow> entry_of_result result = Inr []"
  by (auto simp: entry_of_result_def)

lemma entry_of_result_single:
  assumes "photos_binary attrs"
  shows "entry_of_result [(dn, attrs)] =
    Inr [(''dn'', Dn dn),
         (''attributes'',
          Items (sorted_items (with_markup ''thumbnailPhoto'' (with_markup ''jpegPhoto'' attrs))))]"
proof -
  from assms have j: "photo_binary attrs ''jpegPhoto''"
    and t: "photo_binary attrs ''thumbnailPhoto''"
    by (simp_all add: photos_binary_def photo_attributes_def)
  from t have t': "photo_binary (with_markup ''jpegPhoto'' attrs) ''thumbnailPhoto''"
    by (simp add: photo_binary_with_markup)
  show ?thesis
    by (simp add: entry_of_result_def encode_photo_binary [OF j] encode_photo_binary [OF t'])
qed

lemma entry_of_result_not_binary:
  assumes "\<not> photos_binary attrs"
  shows "\<exists>e. entry_of_result [(dn, attrs)] = Inl e"
proof (cases "photo_binary attrs ''jpegPhoto''")
  case False
  then obtain e where "encode_photo ''jpegPhoto'' attrs = Inl e"
    using encode_photo_not_binary by blast
  then show ?thesis by (simp add: entry_of_result_def)
next
  case True
  with assms have "\<not> photo_binary attrs ''thumbnailPhoto''"
    by (simp add: photos_binary_def photo_attributes_def)
  then have "\<not> photo_binary (with_markup ''jpegPhoto'' attrs) ''thumbnailPhoto''"
    by (simp add: photo_binary_with_markup)
  then obtain e where "encode_photo ''thumbnailPhoto'' (with_markup ''jpegPhoto'' attrs) = Inl e"
    using encode_photo_not_binary by blast
  then show ?thesis
    by (simp add: entry_of_result_def encode_photo_binary [OF True])
qed

lemma ldap_entry_answer:
  assumes "get_connection plugin = Inr conn"
    and "directory conn (entry_query req) = Inr result"
  shows "fst (ldap_entry plugin req directory w) = entry_of_result result"
  using assms by (simp add: ldap_entry_def call_query_helper_def entry_query_def)

lemma ldap_entry_outcome:
  assumes "get_connection plugin = Inr conn"
  shows "fst (ldap_entry plugin req directory w)
     = (case directory conn (entry_query req) of
          Inl e \<Rightarrow> Inl e
        | Inr rows \<Rightarrow> entry_of_result rows)"
  using assms
  by (cases "directory conn (entry_query req)")
    (simp_all add: ldap_entry_def call_query_helper_def entry_query_def)

lemma ldap_entry_helper_calls:
  assumes "get_connection plugin = Inr conn"
  shows "helper_calls (snd (ldap_entry plugin req directory w))
     = helper_calls w @ [(conn, entry_query req)]"
  using assms
  by (cases "directory conn (entry_query req)")
    (simp_all add: ldap_entry_def call_query_helper_def entry_query_def)

lemma ldap_entry_no_connection:
  assumes "get_connection plugin = Inl e"
  shows "ldap_entry plugin req directory w = (Inl e, w)"
  using assms by (simp add: ldap_entry_def)

lemma read_ldap_entry_first:
  assumes "ldap_entry_slot form = None"
  shows "fst (read_ldap_entry directory form w)
     = fst (ldap_entry (form_context form) (form_request form) directory w)"
  using assms by (simp add: read_ldap_entry_def split: prod.splits sum.splits)

lemma read_ldap_entry_stored:
  assumes "ldap_entry_slot form = Some entry"
  shows "read_ldap_entry directory form w = (Inr entry, form, w)"
  using assms by (simp add: read_ldap_entry_def)

text \<open>
  Once a read of \<^verbatim>\<open>form.ldap_entry\<close> has returned, a later read returns the same entry and
  hands nothing more to the query helper.
\<close>

lemma read_ldap_entry_again:
  assumes "read_ldap_entry directory form w = (Inr entry, form', w')"
  shows "read_ldap_entry directory form' w'' = (Inr entry, form', w'')"
proof (cases "ldap_entry_slot form")
  case None
  with assms have "ldap_entry_slot form' = Some entry"
    by (auto simp: read_ldap_entry_def split: prod.splits sum.splits)
  then show ?thesis by (rule read_ldap_entry_stored)
next
  case (Some stored)
  with assms have "form' = form" and "stored = entry"
    by (simp_all add: read_ldap_entry_def)
  with Some show ?thesis by (simp add: read_ldap_entry_stored)
qed

text \<open>
  What the lookup does on a single entry is decided by the photo attributes alone: it raises
  exactly when one of them is not binary.
\<close>

lemma single_entry_raises_iff:
  "(\<exists>e. entry_of_result [(dn, attrs)] = Inl e) \<longleftrightarrow> \<not> photos_binary attrs"
  using entry_of_result_single [of attrs dn] entry_of_result_not_binary [of attrs dn]
  by (cases "photos_binary attrs") auto

subsection \<open>Claims on the entry lookup\<close>

text \<open>
  C1. When the query of the entry lookup answers with no entry or with more than one, the
  lookup returns the empty dictionary, and the values of the entry properties table, which
  read the lookup through the form, are no rows at all; this also holds for a later read of
  the same form.
\<close>

theorem ambiguous_lookup_shows_nothing:
  assumes "get_connection (form_context form) = Inr conn"
    and "directory conn (entry_query (form_request form)) = Inr result"
    and "result = [] \<or> 1 < length result"
    and "ldap_entry_slot form = None"
  shows "fst (ldap_entry (form_context form) (form_request form) directory w) = Inr []
    \<and> fst (LDAPEntryPropertiesTableValues_values directory form w) = Inr []
    \<and> fst (LDAPEntryPropertiesTableValues_values directory
             (fst (snd (read_ldap_entry directory form w))) w') = Inr []"
proof -
  have entry: "fst (ldap_entry (form_context form) (form_request form) directory w) = Inr []"
    using assms(1,2,3) by (simp add: ldap_entry_answer entry_of_result_ambiguous)
  then have "fst (read_ldap_entry directory form w) = Inr []"
    using assms(4) by (simp add: read_ldap_entry_first)
  then obtain form1 w1 where first: "read_ldap_entry directory form w = (Inr [], form1, w1)"
    by (cases "read_ldap_entry directory form w") auto
  then have "read_ldap_entry directory form1 w' = (Inr [], form1, w')"
    by (rule read_ldap_entry_again)
  with first have "fst (LDAPEntryPropertiesTableValues_values directory form w) = Inr []"
    and "fst (LDAPEntryPropertiesTableValues_values directory
               (fst (snd (read_ldap_entry directory form w))) w') = Inr []"
    by (simp_all add: LDAPEntryPropertiesTableValues_values_def dict_get_def)
  with entry show ?thesis by simp
qed

theorem ambiguous_lookup_shows_nothing_witness:
  "fst (ldap_entry sample_plugin other_request sample_directory sample_world) = Inr []
   \<and> fst (LDAPEntryPropertiesTableValues_values sample_directory
            (sample_form other_request) sample_world) = Inr []"
  using ambiguous_lookup_shows_nothing
    [of "sample_form other_request" 7 sample_directory "[]" sample_world sample_world]
  by (simp add: sample_form_def sample_plugin_def sample_directory_def other_request_def
      entry_query_def)

text \<open>
  C2, as the module has it. When the plug-in hands out a connection, the entry lookup
  evaluates \<^verbatim>\<open>LDAPQuery(dn, '(objectclass=*)', BASE, ALL_ATTRIBUTES).execute(conn)\<close> exactly
  once: the list of what has been handed to the query helper grows by one item, that
  connection with the value of \<^verbatim>\<open>request.params.get('dn')\<close> as the base (\<open>None\<close> for a
  request without the parameter), the filter \<^verbatim>\<open>(objectclass=*)\<close>, the scope \<open>BASE\<close> and all
  attributes. The outcome of the lookup comes from the outcome of that one evaluation, and
  an exception of the helper is the exception of the lookup. When \<^verbatim>\<open>get_connection()\<close>
  raises, the lookup raises the same and hands nothing to the helper.
\<close>

theorem lookup_hands_over_one_base_query:
  "(get_connection plugin = Inr conn \<longrightarrow>
      helper_calls (snd (ldap_entry plugin req directory w))
        = helper_calls w @
          [(conn, \<lparr>base_dn = params req ''dn'', filter_tmpl = ''(objectclass=*)'',
                   scope = BASE, attributes = ALL_ATTRIBUTES\<rparr>)]
    \<and> fst (ldap_entry plugin req directory w)
        = (case directory conn
                  \<lparr>base_dn = params req ''dn'', filter_tmpl = ''(objectclass=*)'',
                   scope = BASE, attributes = ALL_ATTRIBUTES\<rparr> of
             Inl e \<Rightarrow> Inl e
           | Inr rows \<Rightarrow> entry_of_result rows))
   \<and> (get_connection plugin = Inl err \<longrightarrow>
        ldap_entry plugin req directory w = (Inl err, w))"
proof (intro conjI impI)
  assume conn: "get_connection plugin = Inr conn"
  show "helper_calls (snd (ldap_entry plugin req directory w))
        = helper_calls w @
          [(conn, \<lparr>base_dn = params req ''dn'', filter_tmpl = ''(objectclass=*)'',
                   scope = BASE, attributes = ALL_ATTRIBUTES\<rparr>)]"
    using ldap_entry_helper_calls [OF conn, of req directory w]
    by (simp add: entry_query_def)
  show "fst (ldap_entry plugin req directory w)
        = (case directory conn
                  \<lparr>base_dn = params req ''dn'', filter_tmpl = ''(objectclass=*)'',
                   scope = BASE, attributes = ALL_ATTRIBUTES\<rparr> of
             Inl e \<Rightarrow> Inl e
           | Inr rows \<Rightarrow> entry_of_result rows)"
    using ldap_entry_outcome [OF conn, of req directory w]
    by (simp add: entry_query_def)
next
  assume "get_connection plugin = Inl err"
  then show "ldap_entry plugin req directory w = (Inl err, w)"
    by (rule ldap_entry_no_connection)
qed

theorem lookup_hands_over_one_base_query_witness:
  "helper_calls (snd (ldap_entry sample_plugin sample_request sample_directory sample_world))
     = [(7, \<lparr>base_dn = Some ''UID=JDOE,OU=People,DC=example,DC=org'',
              filter_tmpl = ''(objectclass=*)'', scope = BASE,
              attributes = ALL_ATTRIBUTES\<rparr>)]
   \<and> ldap_entry offline_plugin sample_request sample_directory sample_world
     = (Inl (ExternalError ''server unreachable''), sample_world)"
proof -
  have conn: "get_connection sample_plugin = Inr 7"
    by (simp add: sample_plugin_def)
  have none: "get_connection offline_plugin = Inl (ExternalError ''server unreachable'')"
    by (simp add: offline_plugin_def)
  have "helper_calls (snd (ldap_entry sample_plugin sample_request sample_directory sample_world))
     = [(7, \<lparr>base_dn = Some ''UID=JDOE,OU=People,DC=example,DC=org'',
              filter_tmpl = ''(objectclass=*)'', scope = BASE,
              attributes = ALL_ATTRIBUTES\<rparr>)]"
    using lookup_hands_over_one_base_query
      [of sample_plugin 7 sample_request sample_directory sample_world] conn
    by (simp add: sample_request_def sample_world_def)
  moreover have "ldap_entry offline_plugin sample_request sample_directory sample_world
     = (Inl (ExternalError ''server unreachable''), sample_world)"
    using lookup_hands_over_one_base_query
      [of offline_plugin _ sample_request sample_directory sample_world
          "ExternalError ''server unreachable''"] none
    by simp
  ultimately show ?thesis by (rule conjI)
qed

text \<open>
  C2, as the specification words it, does not hold for every request. With a plug-in whose
  \<^verbatim>\<open>get_connection()\<close> raises, the lookup hands no query to the helper at all; and for a
  request without a \<^verbatim>\<open>dn\<close> parameter the one query it hands over has no distinguished name
  as its base.
\<close>

theorem lookup_without_connection_or_dn:
  "length (helper_calls
      (snd (ldap_entry offline_plugin sample_request sample_directory sample_world)))
     \<noteq> length (helper_calls sample_world) + 1
   \<and> map (\<lambda>call. base_dn (snd call))
        (helper_calls
          (snd (ldap_entry sample_plugin request_without_dn sample_directory sample_world)))
     = [None]"
  by (simp add: ldap_entry_def call_query_helper_def offline_plugin_def sample_plugin_def
      request_without_dn_def sample_directory_def sample_world_def)

text \<open>The lookup on an answer of one entry whose photo attributes are binary.\<close>

lemma ldap_entry_single:
  assumes "get_connection plugin = Inr conn"
    and "directory conn (entry_query req) = Inr [(dn, attrs)]"
    and "photos_binary attrs"
  shows "fst (ldap_entry plugin req directory w) =
    Inr [(''dn'', Dn dn),
         (''attributes'',
          Items (sorted_items (with_markup ''thumbnailPhoto'' (with_markup ''jpegPhoto'' attrs))))]"
  using assms by (simp add: ldap_entry_answer entry_of_result_single)

lemma dict_get_all_markup:
  assumes "attr \<in> set photo_attributes"
    and "dict_get attrs attr = Some photo"
    and "raw_photo photo = Some raw"
  shows "dict_get (with_markup ''thumbnailPhoto'' (with_markup ''jpegPhoto'' attrs)) attr
     = Some (photo_value raw)"
proof (cases "attr = ''jpegPhoto''")
  case True
  with assms have "dict_get (with_markup ''jpegPhoto'' attrs) attr = Some (photo_value raw)"
    by (simp add: dict_get_with_markup_same)
  with True show ?thesis by (simp add: dict_get_with_markup_other)
next
  case False
  with assms(1) have thumb: "attr = ''thumbnailPhoto''"
    by (simp add: photo_attributes_def)
  with assms have "dict_get (with_markup ''jpegPhoto'' attrs) ''thumbnailPhoto'' = Some photo"
    by (simp add: dict_get_with_markup_other)
  with thumb assms(3) show ?thesis by (simp add: dict_get_with_markup_same)
qed


text \<open>
  C3. On an answer of one entry whose photo attributes are binary, a photo attribute
  (\<^verbatim>\<open>jpegPhoto\<close> or \<^verbatim>\<open>thumbnailPhoto\<close>) that the entry has is listed in the result with the
  image markup as its value: \<^verbatim>\<open><img src="data:image/jpeg;base64,\<close>, the output of
  \<^verbatim>\<open>base64.encodebytes\<close> on the raw bytes of the photo, and \<^verbatim>\<open>" />\<close>. That output is
  the base64 encoding of the bytes, with the line breaks of the MIME form: taking the
  newlines out leaves the plain encoding.
\<close>

theorem photo_attributes_become_image_markup:
  assumes "get_connection plugin = Inr conn"
    and "directory conn (entry_query req) = Inr [(dn, attrs)]"
    and "photos_binary attrs"
    and "attr \<in> set photo_attributes"
    and "dict_get attrs attr = Some photo"
    and "raw_photo photo = Some raw"
  shows "\<exists>items.
      fst (ldap_entry plugin req directory w)
        = Inr [(''dn'', Dn dn), (''attributes'', Items items)]
    \<and> dict_get items attr =
        Some (VList [VStr (''<img src='' @ [CHR 0x22] @ ''data:image/jpeg;base64,''
                           @ encodebytes raw @ [CHR 0x22] @ '' />'')])
    \<and> filter (\<lambda>c. c \<noteq> newline) (encodebytes raw) = b64encode raw"
proof -
  let ?attrs = "with_markup ''thumbnailPhoto'' (with_markup ''jpegPhoto'' attrs)"
  have "fst (ldap_entry plugin req directory w)
      = Inr [(''dn'', Dn dn), (''attributes'', Items (sorted_items ?attrs))]"
    using assms(1,2,3) by (rule ldap_entry_single)
  moreover have "dict_get (sorted_items ?attrs) attr = Some (photo_value raw)"
    using assms(4,5,6) by (simp add: dict_get_sorted_items dict_get_all_markup)
  ultimately show ?thesis
    by (simp add: photo_value_def img_markup_def encodebytes_without_newlines)
qed

theorem photo_attributes_become_image_markup_witness:
  "\<exists>items.
      fst (ldap_entry sample_plugin sample_request sample_directory sample_world)
        = Inr [(''dn'', Dn ''uid=jdoe,ou=people,dc=example,dc=org''),
               (''attributes'', Items items)]
    \<and> dict_get items ''thumbnailPhoto'' =
        Some (VList [VStr (''<img src='' @ [CHR 0x22] @ ''data:image/jpeg;base64,''
                           @ ''TWFu'' @ [CHR 0x0A] @ [CHR 0x22] @ '' />'')])"
proof -
  have enc: "encodebytes [0x4D, 0x61, 0x6E] = ''TWFu'' @ [CHR 0x0A]"
    by (simp add: encodebytes.simps b2a_base64_def MAXBINSIZE_def b64_char_def
        b64_alphabet_def newline_def)
  have conn: "get_connection sample_plugin = Inr 7"
    by (simp add: sample_plugin_def)
  have answer: "sample_directory 7 (entry_query sample_request)
      = Inr [(''uid=jdoe,ou=people,dc=example,dc=org'', sample_attributes)]"
    by (simp add: sample_directory_def sample_request_def entry_query_def sample_row_def)
  have binary: "photos_binary sample_attributes"
    by (simp add: photos_binary_def photo_binary_def photo_attributes_def dict_get_def
        sample_attributes_def)
  have photo: "''thumbnailPhoto'' \<in> set photo_attributes"
    by (simp add: photo_attributes_def)
  have found: "dict_get sample_attributes ''thumbnailPhoto'' = Some (VBytes [0x4D, 0x61, 0x6E])"
    by (simp add: dict_get_def sample_attributes_def)
  have raw: "raw_photo (VBytes [0x4D, 0x61, 0x6E]) = Some [0x4D, 0x61, 0x6E]"
    by simp
  have "\<exists>items.
      fst (ldap_entry sample_plugin sample_request sample_directory sample_world)
        = Inr [(''dn'', Dn ''uid=jdoe,ou=people,dc=example,dc=org''),
               (''attributes'', Items items)]
    \<and> dict_get items ''thumbnailPhoto'' =
        Some (VList [VStr (''<img src='' @ [CHR 0x22] @ ''data:image/jpeg;base64,''
                           @ encodebytes [0x4D, 0x61, 0x6E] @ [CHR 0x22] @ '' />'')])
    \<and> filter (\<lambda>c. c \<noteq> newline) (encodebytes [0x4D, 0x61, 0x6E])
        = b64encode [0x4D, 0x61, 0x6E]"
    by (rule photo_attributes_become_image_markup
      [where directory = sample_directory and req = sample_request and w = sample_world,
       OF conn answer binary photo found raw])
  then show ?thesis
    unfolding enc by (elim exE conjE) (intro exI conjI; simp)
qed







subsection \<open>Claims on the search table\<close>

lemma str_items_map_VStr: "str_items (map VStr ss) = Inr ss"
  by (induction ss) simp_all

lemma join_values_strings: "join_values sep (map VStr ss) = Inr (VStr (join sep ss))"
  by (simp add: join_values_def str_items_map_VStr)

text \<open>
  C8. For a row \<^verbatim>\<open>(dn, attributes)\<close> and a column of attribute name \<open>attr\<close>,
  \<^verbatim>\<open>LDAPColumn.get_value\<close> returns the empty string when the row has no such attribute,
  the strings of a list or of a tuple joined with \<^verbatim>\<open>'<br /> '\<close>, and any value that is
  neither a list nor a tuple as it is.
\<close>

theorem get_value_cases:
  "(dict_get attrs attr = None \<longrightarrow>
      LDAPColumn_get_value attr (dn, attrs) = Inr (VStr []))
   \<and> (dict_get attrs attr = Some (VList (map VStr ss))
        \<or> dict_get attrs attr = Some (VTuple (map VStr ss)) \<longrightarrow>
      LDAPColumn_get_value attr (dn, attrs) = Inr (VStr (join ''<br /> '' ss)))
   \<and> (dict_get attrs attr = Some v \<and> \<not> is_list_or_tuple v \<longrightarrow>
      LDAPColumn_get_value attr (dn, attrs) = Inr v)"
proof (intro conjI impI)
  assume "dict_get attrs attr = None"
  then show "LDAPColumn_get_value attr (dn, attrs) = Inr (VStr [])"
    by (simp add: LDAPColumn_get_value_def join_values_def)
next
  assume "dict_get attrs attr = Some (VList (map VStr ss))
    \<or> dict_get attrs attr = Some (VTuple (map VStr ss))"
  then show "LDAPColumn_get_value attr (dn, attrs) = Inr (VStr (join ''<br /> '' ss))"
    by (auto simp: LDAPColumn_get_value_def join_values_strings)
next
  assume "dict_get attrs attr = Some v \<and> \<not> is_list_or_tuple v"
  then show "LDAPColumn_get_value attr (dn, attrs) = Inr v"
    by (cases v) (simp_all add: LDAPColumn_get_value_def)
qed

theorem get_value_cases_witness:
  "dict_get sample_attributes ''mail'' = None
   \<and> LDAPColumn_get_value ''mail'' sample_row = Inr (VStr [])
   \<and> dict_get sample_attributes ''cn'' = Some (VList (map VStr [''John Doe'', ''J. Doe'']))
   \<and> LDAPColumn_get_value ''cn'' sample_row = Inr (VStr ''John Doe<br /> J. Doe'')
   \<and> dict_get sample_attributes ''uid'' = Some (VStr ''jdoe'')
   \<and> LDAPColumn_get_value ''uid'' sample_row = Inr (VStr ''jdoe'')"
proof -
  have absent: "dict_get sample_attributes ''mail'' = None"
    by (simp add: dict_get_def sample_attributes_def)
  have many: "dict_get sample_attributes ''cn''
      = Some (VList (map VStr [''John Doe'', ''J. Doe'']))"
    by (simp add: dict_get_def sample_attributes_def)
  have one: "dict_get sample_attributes ''uid'' = Some (VStr ''jdoe'')"
    by (simp add: dict_get_def sample_attributes_def)
  have plain: "\<not> is_list_or_tuple (VStr ''jdoe'')"
    by simp
  have "LDAPColumn_get_value ''mail'' sample_row = Inr (VStr [])"
    using get_value_cases
      [of sample_attributes "''mail''" "''uid=jdoe,ou=people,dc=example,dc=org''"] absent
    by (simp add: sample_row_def)
  moreover have "LDAPColumn_get_value ''cn'' sample_row = Inr (VStr ''John Doe<br /> J. Doe'')"
    using get_value_cases
      [of sample_attributes "''cn''" "''uid=jdoe,ou=people,dc=example,dc=org''"
          "[''John Doe'', ''J. Doe'']"] many
    by (simp add: sample_row_def)
  moreover have "LDAPColumn_get_value ''uid'' sample_row = Inr (VStr ''jdoe'')"
    using get_value_cases
      [of sample_attributes "''uid''" "''uid=jdoe,ou=people,dc=example,dc=org''" _
          "VStr ''jdoe''"] one plain
    by (simp add: sample_row_def)
  ultimately show ?thesis
    using absent many one by (intro conjI)
qed

subsection \<open>Claims on the registrations\<close>

lemma add_form_tabs:
  "inner_tab_forms ISecurityManager LDAPPluginAddForm =
    [adapter_config ''connection''
       [Provides ISecurityManager, Provides IAdminLayer, Class LDAPPluginAddForm]
       IInnerTabForm LDAPPluginConnectionAddForm,
     adapter_config ''users-schema''
       [Provides ISecurityManager, Provides IAdminLayer, Class LDAPPluginAddForm]
       IInnerTabForm LDAPPluginUsersSchemaAddForm,
     adapter_config ''groups-schema''
       [Provides ISecurityManager, Provides IAdminLayer, Class LDAPPluginAddForm]
       IInnerTabForm LDAPPluginGroupsSchemaAddForm,
     adapter_config ''search-settings''
       [Provides ISecurityManager, Provides IAdminLayer, Class LDAPPluginAddForm]
       IInnerTabForm LDAPPluginSearchSettingsAddForm]"
  by (simp add: inner_tab_forms_def get_adapters_def adapters_def adapter_config_def
      instance_of_def)

lemma edit_form_tabs:
  "inner_tab_forms ILDAPPlugin LDAPPluginPropertiesEditForm =
    [adapter_config ''connection''
       [Provides ILDAPPlugin, Provides IAdminLayer, Class LDAPPluginPropertiesEditForm]
       IInnerTabForm LDAPPluginConnectionEditForm,
     adapter_config ''users-schema''
       [Provides ILDAPPlugin, Provides IAdminLayer, Class LDAPPluginPropertiesEditForm]
       IInnerTabForm LDAPPluginUsersSchemaEditForm,
     adapter_config ''groups-schema''
       [Provides ILDAPPlugin, Provides IAdminLayer, Class LDAPPluginPropertiesEditForm]
       IInnerTabForm LDAPPluginGroupsSchemaEditForm,
     adapter_config ''search-settings''
       [Provides ILDAPPlugin, Provides IAdminLayer, Class LDAPPluginPropertiesEditForm]
       IInnerTabForm LDAPPluginSearchSettingsEditForm]"
  by (simp add: inner_tab_forms_def get_adapters_def adapters_def adapter_config_def
      instance_of_def)

lemma search_table_columns:
  "table_columns LDAPPluginSearchResultsTable =
    [adapter_config ''uid''
       [Provides ILDAPPlugin, Provides IAdminLayer, Class LDAPPluginSearchResultsTable]
       IColumn LDAPPluginSearchUIDColumn,
     adapter_config ''cn''
       [Provides ILDAPPlugin, Provides IAdminLayer, Class LDAPPluginSearchResultsTable]
       IColumn LDAPPluginSearchCNColumn,
     adapter_config ''mail''
       [Provides ILDAPPlugin, Provides IAdminLayer, Class LDAPPluginSearchResultsTable]
       IColumn LDAPPluginSearchMailColumn]"
  by (simp add: table_columns_def get_adapters_def adapters_def adapter_config_def
      instance_of_def)

lemma connection_add_fields_adapters:
  "fields_adapters ISecurityManager LDAPPluginConnectionAddForm = [ldap_plugin_connection_fields]"
  by (simp add: fields_adapters_def get_adapters_def adapters_def adapter_config_def
      instance_of_def)

lemma connection_edit_fields_adapters:
  "fields_adapters ILDAPPlugin LDAPPluginConnectionEditForm = [ldap_plugin_connection_fields]"
  by (simp add: fields_adapters_def get_adapters_def adapters_def adapter_config_def
      instance_of_def)

text \<open>
  C5. The rows of the search results table are what \<^verbatim>\<open>get_search_results\<close> of the plug-in
  gives for the criteria with the one entry \<^verbatim>\<open>'query'\<close>, the \<^verbatim>\<open>form.widgets.query\<close>
  parameter of the request; and the columns registered for the table are \<^verbatim>\<open>uid\<close>, on the
  \<^verbatim>\<open>uid_attribute\<close> of the plug-in, \<^verbatim>\<open>cn\<close> and \<^verbatim>\<open>mail\<close>.
\<close>

theorem search_table_values_and_columns:
  "LDAPPluginSearchResultsValues_values plugin req
     = get_search_results plugin [(''query'', params req ''form.widgets.query'')]
   \<and> map (\<lambda>a. (adapter_name a, attr_name (factory a) plugin))
         (table_columns LDAPPluginSearchResultsTable)
     = [(''uid'', Some (uid_attribute plugin)), (''cn'', Some ''cn''),
        (''mail'', Some ''mail'')]"
  by (simp add: LDAPPluginSearchResultsValues_values_def search_table_columns
      adapter_config_def)

text \<open>
  C6, as the module has it. The adapters registered as inner tab forms for the add form are
  four: \<^verbatim>\<open>connection\<close>, \<^verbatim>\<open>users-schema\<close>, \<^verbatim>\<open>groups-schema\<close> and
  \<^verbatim>\<open>search-settings\<close>, each registered for the security manager, the admin layer and
  \<^verbatim>\<open>LDAPPluginAddForm\<close>.
\<close>

theorem add_form_has_four_tabs:
  "map (\<lambda>a. (adapter_name a, factory a)) (inner_tab_forms ISecurityManager LDAPPluginAddForm)
     = [(''connection'', LDAPPluginConnectionAddForm),
        (''users-schema'', LDAPPluginUsersSchemaAddForm),
        (''groups-schema'', LDAPPluginGroupsSchemaAddForm),
        (''search-settings'', LDAPPluginSearchSettingsAddForm)]
   \<and> list_all (\<lambda>a. provided a = IInnerTabForm
          \<and> required a = [Provides ISecurityManager, Provides IAdminLayer, Class LDAPPluginAddForm])
        (inner_tab_forms ISecurityManager LDAPPluginAddForm)"
  by (simp add: add_form_tabs adapter_config_def)

text \<open>C6, as the specification words it, does not hold: the sub-forms are not three.\<close>

theorem add_form_tabs_not_three:
  "length (inner_tab_forms ISecurityManager LDAPPluginAddForm) \<noteq> 3"
  by (simp add: add_form_tabs)

text \<open>
  C7. The edit form has inner tab forms of the same four names as the add form, and under
  each name the field selection of the edit sub-form is that of the add sub-form. Neither
  connection sub-form has a \<^verbatim>\<open>fields\<close> attribute of its own: for both, the adapter found for
  \<^verbatim>\<open>IFormFields\<close> is \<^verbatim>\<open>ldap_plugin_connection_fields\<close>.
\<close>

theorem edit_tabs_have_the_fields_of_add_tabs:
  "map adapter_name (inner_tab_forms ILDAPPlugin LDAPPluginPropertiesEditForm)
     = map adapter_name (inner_tab_forms ISecurityManager LDAPPluginAddForm)
   \<and> (\<forall>tab \<in> set [''connection'', ''users-schema'', ''groups-schema'', ''search-settings''].
        \<exists>add_form edit_form fs.
          inner_tab_form ISecurityManager LDAPPluginAddForm tab = Some add_form
        \<and> inner_tab_form ILDAPPlugin LDAPPluginPropertiesEditForm tab = Some edit_form
        \<and> form_fields ISecurityManager add_form = Some fs
        \<and> form_fields ILDAPPlugin edit_form = Some fs)
   \<and> class_fields LDAPPluginConnectionAddForm = None
   \<and> class_fields LDAPPluginConnectionEditForm = None
   \<and> fields_adapters ISecurityManager LDAPPluginConnectionAddForm
        = [ldap_plugin_connection_fields]
   \<and> fields_adapters ILDAPPlugin LDAPPluginConnectionEditForm
        = [ldap_plugin_connection_fields]"
proof (intro conjI ballI)
  show "map adapter_name (inner_tab_forms ILDAPPlugin LDAPPluginPropertiesEditForm)
     = map adapter_name (inner_tab_forms ISecurityManager LDAPPluginAddForm)"
    by (simp add: add_form_tabs edit_form_tabs adapter_config_def)
next
  fix tab :: string
  assume "tab \<in> set [''connection'', ''users-schema'', ''groups-schema'', ''search-settings'']"
  then consider "tab = ''connection''" | "tab = ''users-schema''"
    | "tab = ''groups-schema''" | "tab = ''search-settings''"
    by auto
  then show "\<exists>add_form edit_form fs.
          inner_tab_form ISecurityManager LDAPPluginAddForm tab = Some add_form
        \<and> inner_tab_form ILDAPPlugin LDAPPluginPropertiesEditForm tab = Some edit_form
        \<and> form_fields ISecurityManager add_form = Some fs
        \<and> form_fields ILDAPPlugin edit_form = Some fs"
  proof cases
    case 1
    then show ?thesis
      by (simp add: inner_tab_form_def add_form_tabs edit_form_tabs adapter_config_def
          form_fields_def connection_add_fields_adapters connection_edit_fields_adapters)
  next
    case 2
    then show ?thesis
      by (simp add: inner_tab_form_def add_form_tabs edit_form_tabs adapter_config_def
          form_fields_def)
  next
    case 3
    then show ?thesis
      by (simp add: inner_tab_form_def add_form_tabs edit_form_tabs adapter_config_def
          form_fields_def)
  next
    case 4
    then show ?thesis
      by (simp add: inner_tab_form_def add_form_tabs edit_form_tabs adapter_config_def
          form_fields_def)
  qed
next
  show "class_fields LDAPPluginConnectionAddForm = None" by simp
next
  show "class_fields LDAPPluginConnectionEditForm = None" by simp
next
  show "fields_adapters ISecurityManager LDAPPluginConnectionAddForm
      = [ldap_plugin_connection_fields]"
    by (rule connection_add_fields_adapters)
next
  show "fields_adapters ILDAPPlugin LDAPPluginConnectionEditForm
      = [ldap_plugin_connection_fields]"
    by (rule connection_edit_fields_adapters)
qed

theorem edit_tabs_have_the_fields_of_add_tabs_witness:
  "\<exists>fs. inner_tab_form ISecurityManager LDAPPluginAddForm ''users-schema''
        = Some LDAPPluginUsersSchemaAddForm
    \<and> inner_tab_form ILDAPPlugin LDAPPluginPropertiesEditForm ''users-schema''
        = Some LDAPPluginUsersSchemaEditForm
    \<and> form_fields ISecurityManager LDAPPluginUsersSchemaAddForm = Some fs
    \<and> form_fields ILDAPPlugin LDAPPluginUsersSchemaEditForm = Some fs"
proof -
  have tab: "''users-schema''
      \<in> set [''connection'', ''users-schema'', ''groups-schema'', ''search-settings'']"
    by simp
  have "\<exists>add_form edit_form fs.
      inner_tab_form ISecurityManager LDAPPluginAddForm ''users-schema'' = Some add_form
    \<and> inner_tab_form ILDAPPlugin LDAPPluginPropertiesEditForm ''users-schema'' = Some edit_form
    \<and> form_fields ISecurityManager add_form = Some fs
    \<and> form_fields ILDAPPlugin edit_form = Some fs"
    using edit_tabs_have_the_fields_of_add_tabs tab by (elim conjE bspec)
  moreover have "inner_tab_form ISecurityManager LDAPPluginAddForm ''users-schema''
      = Some LDAPPluginUsersSchemaAddForm"
    by (simp add: inner_tab_form_def add_form_tabs adapter_config_def)
  moreover have "inner_tab_form ILDAPPlugin LDAPPluginPropertiesEditForm ''users-schema''
      = Some LDAPPluginUsersSchemaEditForm"
    by (simp add: inner_tab_form_def edit_form_tabs adapter_config_def)
  ultimately show ?thesis by auto
qed

end
